theory Spec2Isabelle
  imports Complex_Main "HOL-Library.AList" "HOL-Library.Sublist" "HOL-Library.Log_Nat"
    "HOL-Library.Word"
begin

section \<open>Python values used by the harness\<close>

text \<open>
  Exceptions are values. The constructors are the Python classes that the two modules
  raise, catch or let through; \<open>Exception\<close> stands for any other subclass of
  Python's \<open>Exception\<close>, with its message. \<open>asyncio.CancelledError\<close> derives from
  \<open>BaseException\<close> and not from \<open>Exception\<close>, so it is the one that a handler
  \<open>except Exception\<close> lets through.
\<close>

datatype exn =
    AttributeError string
  | KeyError string
  | NameError string
  | RuntimeError string
  | TimeoutError
  | CancelledError
  | Exception string


subsection \<open>Strings\<close>

text \<open>
  \<open>str.split(sep)\<close> for a one-character separator: the result is never empty, and a
  string without the separator is returned whole.
\<close>

fun py_split :: "char \<Rightarrow> string \<Rightarrow> string list" where
  "py_split sep [] = [[]]"
| "py_split sep (c # cs) =
     (if c = sep then [] # py_split sep cs
      else (case py_split sep cs of
              [] \<Rightarrow> [[c]]
            | x # xs \<Rightarrow> (c # x) # xs))"

text \<open>\<open>str.lower()\<close> on ASCII text.\<close>

definition lower_char :: "char \<Rightarrow> char" where
  "lower_char c =
     (let n = (of_char c :: nat) in if 65 \<le> n \<and> n \<le> 90 then char_of (n + 32) else c)"

definition py_lower :: "string \<Rightarrow> string" where
  "py_lower s = map lower_char s"

text \<open>\<open>sep.join(parts)\<close>.\<close>

fun py_join :: "string \<Rightarrow> string list \<Rightarrow> string" where
  "py_join sep [] = []"
| "py_join sep [x] = x"
| "py_join sep (x # y # ys) = x @ sep @ py_join sep (y # ys)"

text \<open>\<open>needle in haystack\<close> on strings: a contiguous occurrence.\<close>

definition py_in :: "string \<Rightarrow> string \<Rightarrow> bool" where
  "py_in needle haystack = sublist needle haystack"

subsection \<open>Floats\<close>

text \<open>
  A Python float is a binary64 number, and every arithmetic operation on floats returns the
  binary64 number nearest to the exact result, ties going to the even significand.
  \<open>binary64\<close> is that rounding: \<open>exponent_of x\<close> is the integer \<open>e\<close> with
  \<open>2 ^ e \<le> x < 2 ^ (e + 1)\<close>, the spacing of the floats around \<open>x\<close> is
  \<open>2 ^ (e - 52)\<close> (and \<open>2 ^ (- 1074)\<close> below the normal range), and \<open>x\<close> goes to the
  nearest multiple of the spacing. The conversion of an integer to a float, as in
  \<open>n * 1.10\<close>, rounds in the same way. The numbers rounded here stay far below
  \<open>2 ^ 1024\<close>, where Python's floats end.
\<close>

definition round_half_even :: "real \<Rightarrow> int" where
  "round_half_even x =
     (let f = \<lfloor>x\<rfloor>; d = x - of_int f
      in if d < 1 / 2 then f else if 1 / 2 < d then f + 1 else if even f then f else f + 1)"

definition pow2 :: "int \<Rightarrow> real" where
  "pow2 e = (if 0 \<le> e then 2 ^ nat e else 1 / 2 ^ nat (- e))"

definition exponent_of :: "real \<Rightarrow> int" where
  "exponent_of x = (if 1 \<le> x then bitlen \<lfloor>x\<rfloor> - 1 else - bitlen (\<lceil>1 / x\<rceil> - 1))"

definition binary64 :: "real \<Rightarrow> real" where
  "binary64 x =
     (if x = 0 then 0
      else let u = pow2 (max (exponent_of \<bar>x\<bar>) (- 1022) - 52)
           in sgn x * of_int (round_half_even (\<bar>x\<bar> / u)) * u)"

section \<open>The operating system as the probe sees it\<close>

text \<open>
  A child process as \<open>psutil\<close> reports it: \<open>cmdline = None\<close> stands for
  \<open>p.cmdline()\<close> raising \<open>psutil.Error\<close>.
\<close>

record process =
  pid :: nat
  is_running :: bool
  cmdline :: "string list option"

text \<open>
  The two dictionaries that \<open>snapshot\<close> builds: the six readings of a live process
  (\<open>fds\<close> and \<open>handles\<close> are \<open>None\<close> where the platform has no such call), or
  \<open>{"dead": True}\<close>. \<open>rss\<close> is the resident set size in bytes as the operating system
  counts it, an unsigned number of 64 bits; \<open>cpu\<close> is a float, the other readings are
  Python integers.
\<close>

datatype resource_snapshot =
    Usage (rss: "64 word") (cpu: real) (thr: int) (fds: "int option") (handles: "int option")
      (kids: int)
  | Dead

text \<open>\<open>d.get(key, 0)\<close> on such a dictionary.\<close>

fun get_rss :: "resource_snapshot \<Rightarrow> int" where
  "get_rss (Usage r c t f h k) = uint r"
| "get_rss Dead = 0"

fun get_cpu :: "resource_snapshot \<Rightarrow> real" where
  "get_cpu (Usage r c t f h k) = c"
| "get_cpu Dead = 0"

fun get_thr :: "resource_snapshot \<Rightarrow> int" where
  "get_thr (Usage r c t f h k) = t"
| "get_thr Dead = 0"

fun get_kids :: "resource_snapshot \<Rightarrow> int" where
  "get_kids (Usage r c t f h k) = k"
| "get_kids Dead = 0"

text \<open>
  What awaiting the cancelled task does: it returns (the call had already finished), or
  it raises; raising \<open>CancelledError\<close> is the ordinary outcome of a cancellation.
\<close>

datatype task_outcome = Returned | Raised exn

text \<open>
  Everything the operating system and the server decide. Time is the reading of
  \<open>time.monotonic()\<close>, in seconds, as a real number; the readings of a process and the
  children of the harness depend on the time at which they are asked for. A blocking call
  that asks for \<open>d\<close> seconds returns after \<open>d\<close> seconds plus an overrun, which is never
  negative: no sleep returns early. Only the sleeps and the sampling of a snapshot take
  time; two readings of the clock with neither in between are equal.
  \<open>call_outcome\<close> is what awaiting the cancelled call of a tool does.
  \<open>close_error\<close> says whether closing the exit stack of a server raises, and what:
  an error of the transport, or \<open>CancelledError\<close> when the close is cancelled from within.
  \<open>spawn_error\<close> says whether entering
  \<open>stdio_client\<close> (or \<open>streamablehttp_client\<close>) raises, and \<open>initialize_error\<close>
  what \<open>asyncio.wait_for(session.initialize(), timeout=5.0)\<close> raises, if anything:
  \<open>TimeoutError\<close> when the five seconds pass.
\<close>

record os_env =
  os_sep :: char
  children :: "real \<Rightarrow> process list"
  usage :: "nat \<Rightarrow> real \<Rightarrow> resource_snapshot"
  overrun :: "real \<Rightarrow> real"
  call_outcome :: "string \<Rightarrow> task_outcome"
  close_error :: "string \<Rightarrow> exn option"
  spawn_error :: "string \<Rightarrow> exn option"
  initialize_error :: "string \<Rightarrow> exn option"

text \<open>
  What a run does to the outside, in order: the log of a run. Messages logged at the level
  \<open>info\<close> are left out. \<open>Close_warning_logged server_id e\<close> is the warning
  \<open>f"Error closing {server_id}: {e}"\<close> of \<open>cleanup\<close>.
\<close>

datatype event =
    Children_listed
  | Snapshot_taken resource_snapshot
  | Call_issued string
  | Cancel_requested
  | Aclose_called string
  | Close_warning_logged string exn
  | Error_logged string

text \<open>
  The world of a run: the clock, the log, and the values that \<open>time.monotonic()\<close> has
  returned to the run, in order.
\<close>

record world =
  now :: real
  events :: "event list"
  readings :: "real list"

definition emit :: "event \<Rightarrow> world \<Rightarrow> world" where
  "emit e w = w\<lparr>events := events w @ [e]\<rparr>"

text \<open>\<open>time.monotonic()\<close>.\<close>

definition monotonic :: "world \<Rightarrow> real \<times> world" where
  "monotonic w = (now w, w\<lparr>readings := readings w @ [now w]\<rparr>)"

text \<open>\<open>time.sleep(d)\<close>, \<open>await asyncio.sleep(d)\<close> and every other call that blocks.\<close>

definition block :: "os_env \<Rightarrow> real \<Rightarrow> world \<Rightarrow> world" where
  "block env d w = w\<lparr>now := now w + d + max 0 (overrun env (now w))\<rparr>"

section \<open>The client object of \<^verbatim>\<open>generic_client.py\<close>\<close>

text \<open>\<open>StdioServerParameters\<close> of the protocol library, as \<open>run.py\<close> fills it.\<close>

record stdio_server_parameters =
  command :: string
  args :: "string list"
  cwd :: "string option"
  env_vars :: "(string \<times> string) list option"

text \<open>
  The dictionary registered for a server: \<open>{"transport": ..., "server_params": ...}\<close> or
  \<open>{"transport": ..., "server_url": ..., "headers": ...}\<close>. A key that the dictionary
  does not hold is \<open>None\<close>.
\<close>

record server_config =
  cfg_transport :: string
  cfg_server_params :: "stdio_server_parameters option"
  cfg_server_url :: "string option"
  cfg_headers :: "(string \<times> string) list option"

text \<open>
  The pair of streams that a transport yields, the \<open>ClientSession\<close> built on it, and
  the context managers that an \<open>AsyncExitStack\<close> has entered (the latest first).
\<close>

datatype streams = Stdio_streams stdio_server_parameters | Http_streams string

datatype session = ClientSession streams

datatype context_manager = Transport_context streams | Session_context session

type_synonym exit_stack = "context_manager list"

text \<open>
  The attributes of the client. \<open>__init__\<close> sets \<open>transport\<close>, \<open>server_params\<close>,
  \<open>sessions\<close> and \<open>exit_stacks\<close>; connecting sets \<open>self.stdio, self.write\<close>.
  \<open>timeout_tester\<close> reads \<open>transport_name\<close> and \<open>transport_params\<close>, which no
  method of the class sets: \<open>None\<close> is an object without the attribute.
  \<open>exit_stacks\<close> is a dictionary that \<open>cleanup\<close> iterates, so it keeps its insertion
  order.
\<close>

record client =
  transport :: "string option"
  server_params :: "string \<rightharpoonup> server_config"
  sessions :: "string \<rightharpoonup> session"
  exit_stacks :: "(string \<times> exit_stack) list"
  stdio_and_write :: "streams option"
  transport_name :: "string option"
  transport_params :: "(string \<rightharpoonup> server_config) option"

text \<open>
  \<open>await exit_stack.aclose()\<close> on the stack registered for \<open>server_id\<close>. The stack
  pops every context before it exits it, so it is empty afterwards also when an exit
  raises. What it raises is what the environment says.
\<close>

definition aclose :: "os_env \<Rightarrow> string \<Rightarrow> client \<Rightarrow> world \<Rightarrow> (exn + unit) \<times> client \<times> world" where
  "aclose env server_id c w =
     (let c1 = c\<lparr>exit_stacks := AList.map_entry server_id (\<lambda>st. []) (exit_stacks c)\<rparr>;
          w1 = emit (Aclose_called server_id) w
      in case close_error env server_id of
           None \<Rightarrow> (Inr (), c1, w1)
         | Some e \<Rightarrow> (Inl e, c1, w1))"

section \<open>\<^verbatim>\<open>advanced.py\<close>\<close>

subsection \<open>\<^verbatim>\<open>snapshot\<close>\<close>

text \<open>
  \<open>snapshot(proc)\<close> never raises: \<open>psutil.Error\<close> becomes the dead snapshot. A
  live process is sampled with \<open>cpu_percent(interval=0.1)\<close>, which blocks for a tenth
  of a second; a dead one may fail before that call.
\<close>

definition snapshot :: "os_env \<Rightarrow> process \<Rightarrow> world \<Rightarrow> resource_snapshot \<times> world" where
  "snapshot env proc w =
     (let s = usage env (pid proc) (now w)
      in (s, emit (Snapshot_taken s) (block env (case s of Dead \<Rightarrow> 0 | _ \<Rightarrow> 0.1) w)))"

subsection \<open>The decay heuristic of the drain loop\<close>

text \<open>
  Lines 42 to 46, with \<open>last\<close> written \<open>lst\<close> (\<open>last\<close> is a list function of HOL). In
  \<open>base.get("rss", 0) * 1.10 + 5_000_000\<close> the integer becomes a float, \<open>1.10\<close> is the
  float nearest to eleven tenths, and the product and the sum are each rounded; Python then
  compares the integer on the left with that float exactly. The comparisons of threads and
  children are between integers, and \<open>cpu\<close> is a float compared with the float
  \<open>2.0\<close>.
\<close>

definition ok_cpu :: "resource_snapshot \<Rightarrow> bool" where
  "ok_cpu lst = (get_cpu lst < 2.0)"

definition ok_thr :: "resource_snapshot \<Rightarrow> resource_snapshot \<Rightarrow> bool" where
  "ok_thr base lst = (get_thr lst \<le> get_thr base + 1)"

definition ok_kids :: "resource_snapshot \<Rightarrow> resource_snapshot \<Rightarrow> bool" where
  "ok_kids base lst = (get_kids lst \<le> get_kids base)"

definition ok_rss :: "resource_snapshot \<Rightarrow> resource_snapshot \<Rightarrow> bool" where
  "ok_rss base lst =
     (real_of_int (get_rss lst)
        \<le> binary64 (binary64 (binary64 (real_of_int (get_rss base)) * binary64 1.10) + 5000000))"

definition decayed :: "resource_snapshot \<Rightarrow> resource_snapshot \<Rightarrow> bool" where
  "decayed base lst = (ok_cpu lst \<and> ok_thr base lst \<and> ok_kids base lst \<and> ok_rss base lst)"

text \<open>The dictionary that \<open>timeout_tester\<close> returns; \<open>final = None\<close> is Python's \<open>None\<close>.\<close>

record probe_result =
  status :: string
  baseline :: resource_snapshot
  final :: "resource_snapshot option"

text \<open>
  The loop of lines 39 to 50, entered with the deadline and the value of \<open>last\<close>; each
  test of the loop reads the clock:
  \<^verbatim>\<open>
    while time.monotonic() < deadline:
        last = snapshot(proc)
        ...
        if ok_cpu and ok_thr and ok_kids and ok_rss:
            return {"status": "clean", "baseline": base, "final": last}
        await asyncio.sleep(0.2)
    return {"status": "suspect_leak", "baseline": base, "final": last}
  \<close>
\<close>

function drain :: "os_env \<Rightarrow> process \<Rightarrow> resource_snapshot \<Rightarrow> real \<Rightarrow> resource_snapshot option \<Rightarrow> world
    \<Rightarrow> probe_result \<times> world" where
  "drain env proc base deadline lst w =
     (case monotonic w of
        (t, w0) \<Rightarrow>
          if t < deadline then
            (case snapshot env proc w0 of
               (s, w1) \<Rightarrow>
                 if decayed base s
                 then (\<lparr>status = ''clean'', baseline = base, final = Some s\<rparr>, w1)
                 else drain env proc base deadline (Some s) (block env 0.2 w1))
          else (\<lparr>status = ''suspect_leak'', baseline = base, final = lst\<rparr>, w0))"
  by pat_completeness auto

text \<open>
  The loop ends: each iteration that goes on sleeps for at least a fifth of a second, so the
  number of fifths of a second left before the deadline goes down.
\<close>

termination drain
proof (relation "measure (\<lambda>(env, proc, base, deadline, lst, w). nat \<lceil>(deadline - now w) * 5\<rceil>)")
  show "wf (measure (\<lambda>(env :: os_env, proc :: process, base :: resource_snapshot, deadline :: real,
      lst :: resource_snapshot option, w :: world). nat \<lceil>(deadline - now w) * 5\<rceil>))"
    by (rule wf_measure)
next
  fix env :: os_env and proc :: process and base :: resource_snapshot and deadline :: real
    and lst :: "resource_snapshot option" and w :: world and t :: real and w0 :: world
    and s :: resource_snapshot and w1 :: world
  assume m: "(t, w0) = monotonic w" and lt: "t < deadline" and p: "(s, w1) = snapshot env proc w0"
  from m have t: "t = now w" and w0: "now w0 = now w"
    by (simp_all add: monotonic_def)
  have "(0::real) \<le> (case s of Dead \<Rightarrow> 0 | _ \<Rightarrow> 0.1)"
    by (simp split: resource_snapshot.split)
  then have "now w \<le> now w1"
    using p w0 by (simp add: snapshot_def Let_def emit_def block_def)
  moreover have "now w1 + 0.2 \<le> now (block env 0.2 w1)"
    by (simp add: block_def)
  ultimately have "(deadline - now (block env 0.2 w1)) * 5 \<le> (deadline - now w) * 5 - 1"
    by simp
  then have "\<lceil>(deadline - now (block env 0.2 w1)) * 5\<rceil> \<le> \<lceil>(deadline - now w) * 5 - 1\<rceil>"
    by (rule ceiling_mono)
  moreover have "0 < \<lceil>(deadline - now w) * 5\<rceil>"
    using lt t by simp
  ultimately have "nat \<lceil>(deadline - now (block env 0.2 w1)) * 5\<rceil> < nat \<lceil>(deadline - now w) * 5\<rceil>"
    by simp
  then show "((env, proc, base, deadline, Some s, block env 0.2 w1), env, proc, base, deadline, lst, w)
      \<in> measure (\<lambda>(env, proc, base, deadline, lst, w). nat \<lceil>(deadline - now w) * 5\<rceil>)"
    by simp
qed

subsection \<open>\<^verbatim>\<open>find_stdio_child\<close>\<close>

text \<open>The \<open>for\<close> loop of lines 62 to 68: the first candidate whose command line holds the stem.\<close>

fun first_match :: "string \<Rightarrow> process list \<Rightarrow> process option" where
  "first_match cmd_stem [] = None"
| "first_match cmd_stem (p # ps) =
     (case cmdline p of
        None \<Rightarrow> first_match cmd_stem ps
      | Some cl \<Rightarrow>
          if py_in cmd_stem (py_lower (py_join '' '' cl)) then Some p
          else first_match cmd_stem ps)"

text \<open>
  The function pauses with \<open>time.sleep(0.1)\<close>, lists the children of the harness once,
  keeps those that are running, and returns the first match or raises. \<open>psutil.Error\<close>
  from \<open>p.cmdline()\<close> skips the candidate.
\<close>

definition find_stdio_child :: "os_env \<Rightarrow> string \<Rightarrow> world \<Rightarrow> (exn + process) \<times> world" where
  "find_stdio_child env cmd_stem w =
     (let w1 = block env 0.1 w;
          candidates = filter is_running (children env (now w1));
          w2 = emit Children_listed w1
      in case first_match cmd_stem candidates of
           Some p \<Rightarrow> (Inr p, w2)
         | None \<Rightarrow> (Inl (RuntimeError ''Could not locate stdio server process''), w2))"

subsection \<open>\<^verbatim>\<open>timeout_tester\<close>\<close>

text \<open>
  The keyword arguments that the function reads, and the two names \<open>tool\<close> and
  \<open>args\<close> that line 24 takes from the module's globals: \<open>None\<close> is a name that is not
  bound, as in the module as it stands.
\<close>

record kwargs =
  kw_grace :: "real option"
  kw_server_id :: "string option"

record py_globals =
  g_tool :: "string option"
  g_args :: "(string \<times> string) list option"

text \<open>
  Lines 28 to 31: awaiting the cancelled task. \<open>CancelledError\<close> is swallowed; the
  result is the exception that leaves the \<open>try\<close> statement, if any.
\<close>

definition await_cancelled :: "os_env \<Rightarrow> string \<Rightarrow> exn option" where
  "await_cancelled env tool =
     (case call_outcome env tool of
        Returned \<Rightarrow> None
      | Raised e \<Rightarrow> if e = CancelledError then None else Some e)"

text \<open>
  The function, line by line: the default of \<open>grace\<close>, the check of the transport, the
  default of \<open>server_id\<close>, the three lookups of lines 16 to 18, the child and the baseline
  of lines 20 and 21, the call, the pause and the cancellation of lines 24 to 31, the close
  of line 34, and the drain loop entered with \<open>deadline = time.monotonic() + grace\<close> and
  \<open>last = None\<close>. A failure returns the exception with the client and the world as they
  are at that point. The result also carries the client, since \<open>stack.aclose()\<close> empties
  the exit stack that the client holds for the server.
\<close>

definition timeout_tester :: "os_env \<Rightarrow> py_globals \<Rightarrow> client \<Rightarrow> kwargs \<Rightarrow> world
    \<Rightarrow> (exn + probe_result) \<times> client \<times> world" where
  "timeout_tester env g c kw w =
     (let grace = (case kw_grace kw of None \<Rightarrow> 5 | Some x \<Rightarrow> x) in
      case transport_name c of
        None \<Rightarrow> (Inl (AttributeError ''transport_name''), c, w)
      | Some tn \<Rightarrow>
      if tn \<noteq> ''stdio''
      then (Inl (RuntimeError ''timeout_tester only works with stdio transport''), c, w)
      else
      (let server_id = (case kw_server_id kw of None \<Rightarrow> ''1'' | Some x \<Rightarrow> x) in
       case transport_params c of
         None \<Rightarrow> (Inl (AttributeError ''transport_params''), c, w)
       | Some tp \<Rightarrow>
       (case tp server_id of
          None \<Rightarrow> (Inl (KeyError server_id), c, w)
        | Some cfg \<Rightarrow>
       (case cfg_server_params cfg of
          None \<Rightarrow> (Inl (KeyError ''server_params''), c, w)
        | Some stdio_params \<Rightarrow>
       (case sessions c server_id of
          None \<Rightarrow> (Inl (KeyError server_id), c, w)
        | Some session \<Rightarrow>
       (case map_of (exit_stacks c) server_id of
          None \<Rightarrow> (Inl (KeyError server_id), c, w)
        | Some stack \<Rightarrow>
       (case find_stdio_child env
               (py_lower (last (py_split (os_sep env) (command stdio_params)))) w of
          (Inl e, w1) \<Rightarrow> (Inl e, c, w1)
        | (Inr proc, w1) \<Rightarrow>
       (case snapshot env proc w1 of (base, w2) \<Rightarrow>
       (case g_tool g of
          None \<Rightarrow> (Inl (NameError ''tool''), c, w2)
        | Some tool \<Rightarrow>
       (case g_args g of
          None \<Rightarrow> (Inl (NameError ''args''), c, w2)
        | Some tool_args \<Rightarrow>
       (let w3 = emit (Call_issued tool) w2;
            w4 = block env 0.2 w3;
            w5 = emit Cancel_requested w4
        in case await_cancelled env tool of
             Some e \<Rightarrow> (Inl e, c, w5)
           | None \<Rightarrow>
       (case aclose env server_id c w5 of
          (Inl e, c6, w6) \<Rightarrow> (Inl e, c6, w6)
        | (Inr u, c6, w6) \<Rightarrow>
       (case monotonic w6 of (t, w6') \<Rightarrow>
       (case drain env proc base (t + grace) None w6' of
          (r, w7) \<Rightarrow> (Inr r, c6, w7)))))))))))))))"

section \<open>\<^verbatim>\<open>generic_client.py\<close>\<close>

text \<open>\<open>__init__\<close> and \<open>add_server\<close>.\<close>

definition MCPTesterClient :: "string option \<Rightarrow> client" where
  "MCPTesterClient tr =
     \<lparr>transport = tr, server_params = Map.empty, sessions = Map.empty, exit_stacks = [],
      stdio_and_write = None, transport_name = None, transport_params = None\<rparr>"

definition add_server :: "client \<Rightarrow> string \<Rightarrow> server_config \<Rightarrow> client" where
  "add_server c server_id params = c\<lparr>server_params := (server_params c)(server_id \<mapsto> params)\<rparr>"

text \<open>\<open>await exit_stack.enter_async_context(cm)\<close> on the stack registered for \<open>server_id\<close>.\<close>

definition enter_async_context :: "string \<Rightarrow> context_manager \<Rightarrow> client \<Rightarrow> client" where
  "enter_async_context server_id cm c =
     c\<lparr>exit_stacks := AList.map_entry server_id (\<lambda>st. cm # st) (exit_stacks c)\<rparr>"

text \<open>
  \<open>connect_server_stdio\<close>, with \<open>except TimeoutError\<close> read as in Python 3.11 and later,
  where \<open>asyncio.wait_for\<close> raises the builtin \<open>TimeoutError\<close>. In the handler, line 94
  is \<open>exit_stack.aclose()\<close> without \<open>await\<close>: it builds a coroutine that never runs,
  so the stack is left as it is.
\<close>

definition connect_server_stdio :: "os_env \<Rightarrow> client \<Rightarrow> string \<Rightarrow> stdio_server_parameters \<Rightarrow> world
    \<Rightarrow> (exn + session option) \<times> client \<times> world" where
  "connect_server_stdio env c server_id sp w =
     (let c1 = c\<lparr>exit_stacks := AList.update server_id [] (exit_stacks c)\<rparr> in
      case spawn_error env server_id of
        Some e \<Rightarrow> (Inl e, c1, w)
      | None \<Rightarrow>
      (let stdio_transport = Stdio_streams sp;
           c2 = enter_async_context server_id (Transport_context stdio_transport) c1;
           c3 = c2\<lparr>stdio_and_write := Some stdio_transport\<rparr>;
           session = ClientSession stdio_transport;
           c4 = enter_async_context server_id (Session_context session) c3;
           c5 = c4\<lparr>sessions := (sessions c4)(server_id \<mapsto> session)\<rparr>
       in case initialize_error env server_id of
            None \<Rightarrow> (Inr (Some session), c5, w)
          | Some e \<Rightarrow>
              if e = TimeoutError
              then (Inr None, c5\<lparr>sessions := (sessions c5)(server_id := None)\<rparr>,
                    emit (Error_logged (''Timeout while initializing session for server '' @ server_id)) w)
              else (Inl e, c5, w)))"



section \<open>Observing a run\<close>

text \<open>
  The functions of this section are not code of the harness: they read the log of a run,
  so that the claims can speak about what a run did. \<open>snapshots_of\<close> lists the
  snapshots that were taken, \<open>close_attempts\<close> the servers whose exit stack was asked to
  close, \<open>warnings\<close> the warnings of \<open>cleanup\<close>, each in the order of the run.
  \<open>holds_stem\<close> is the test that the body of the loop of \<open>find_stdio_child\<close> makes
  on one candidate.
\<close>

fun snapshots_of :: "event list \<Rightarrow> resource_snapshot list" where
  "snapshots_of [] = []"
| "snapshots_of (Snapshot_taken s # es) = s # snapshots_of es"
| "snapshots_of (e # es) = snapshots_of es"




section \<open>Concrete inputs\<close>

text \<open>
  A server started as \<open>/usr/bin/Python local_server.py\<close> under the id \<open>1\<close>, a client
  that holds its session and has the attributes that \<open>timeout_tester\<close> reads, and an
  operating system in which the server is busy between 0.3 and 0.6 seconds and back near its
  baseline afterwards. The other inputs change one thing each: a server that never decays, a
  call that fails, a child that shows up late, a handshake that times out, an exit stack
  that fails to close, one whose close is cancelled, another configuration, and a client
  with two servers.
\<close>

definition example_params :: stdio_server_parameters where
  "example_params = \<lparr>command = ''/usr/bin/Python'', args = [''local_server.py''], cwd = None, env_vars = None\<rparr>"

definition example_config :: server_config where
  "example_config = \<lparr>cfg_transport = ''stdio'', cfg_server_params = Some example_params,
     cfg_server_url = None, cfg_headers = None\<rparr>"

definition example_client :: client where
  "example_client =
     \<lparr>transport = Some ''stdio'',
      server_params = [''1'' \<mapsto> example_config],
      sessions = [''1'' \<mapsto> ClientSession (Stdio_streams example_params)],
      exit_stacks = [(''1'', [Session_context (ClientSession (Stdio_streams example_params)),
                             Transport_context (Stdio_streams example_params)])],
      stdio_and_write = Some (Stdio_streams example_params),
      transport_name = Some ''stdio'',
      transport_params = Some [''1'' \<mapsto> example_config]\<rparr>"

definition example_child :: process where
  "example_child = \<lparr>pid = 4242, is_running = True, cmdline = Some [''Python'', ''local_server.py'']\<rparr>"

definition example_env :: os_env where
  "example_env =
     \<lparr>os_sep = CHR ''/'',
      children = (\<lambda>t. [example_child]),
      usage = (\<lambda>p t. if t < 0.3 then Usage 50000000 3.5 4 (Some 12) None 0
                     else if t < 0.6 then Usage 200000000 40 9 (Some 30) None 2
                     else Usage 48000000 1.0 5 (Some 12) None 0),
      overrun = (\<lambda>t. 0),
      call_outcome = (\<lambda>tool. Raised CancelledError),
      close_error = (\<lambda>sid. None),
      spawn_error = (\<lambda>sid. None),
      initialize_error = (\<lambda>sid. None)\<rparr>"

definition example_globals :: py_globals where
  "example_globals = \<lparr>g_tool = Some ''slow_tool'', g_args = Some []\<rparr>"

definition example_kwargs :: kwargs where
  "example_kwargs = \<lparr>kw_grace = None, kw_server_id = None\<rparr>"

definition example_start :: world where
  "example_start = \<lparr>now = 0, events = [], readings = []\<rparr>"


definition failing_call_env :: os_env where
  "failing_call_env = example_env\<lparr>call_outcome := (\<lambda>tool. Raised (Exception ''tool failed''))\<rparr>"


definition timeout_env :: os_env where
  "timeout_env = example_env\<lparr>initialize_error := (\<lambda>sid. Some TimeoutError)\<rparr>"



definition other_config :: server_config where
  "other_config = \<lparr>cfg_transport = ''streamable_https'', cfg_server_params = None,
     cfg_server_url = Some ''http://example.com/mcp'', cfg_headers = None\<rparr>"


section \<open>Facts about the steps of a run\<close>

text \<open>
  The rounding decides the memory test on large numbers. With a baseline of 9621509098033421
  bytes the float threshold falls below the exact one, and a reading of 10583660012836763
  bytes is rejected, though it is within the bound over the reals; with a baseline of
  511829936295599 bytes the threshold is rounded up, and a reading of 563012934925159 bytes
  is accepted, though it is beyond the bound over the reals.
\<close>

lemma ok_rss_threshold_rounded_down:
  "\<not> ok_rss (Usage 9621509098033421 0 1 None None 0) (Usage 10583660012836763 0 1 None None 0)
   \<and> (10583660012836763 :: real) \<le> 9621509098033421 * 1.10 + 5000000"
  by code_simp

lemma ok_rss_threshold_rounded_up:
  "ok_rss (Usage 511829936295599 0 1 None None 0) (Usage 563012934925159 0 1 None None 0)
   \<and> \<not> (563012934925159 :: real) \<le> 511829936295599 * 1.10 + 5000000"
  by code_simp

lemma now_block: "now w + d \<le> now (block env d w)"
  by (simp add: block_def)

lemma now_emit: "now (emit e w) = now w"
  by (simp add: emit_def)

lemma now_snapshot: "now w \<le> now (snd (snapshot env proc w))"
proof -
  have "now w + (case usage env (pid proc) (now w) of Dead \<Rightarrow> 0 | _ \<Rightarrow> 0.1)
          \<le> now (block env (case usage env (pid proc) (now w) of Dead \<Rightarrow> 0 | _ \<Rightarrow> 0.1) w)"
    by (rule now_block)
  moreover have "(0::real) \<le> (case usage env (pid proc) (now w) of Dead \<Rightarrow> 0 | _ \<Rightarrow> 0.1)"
    by (simp split: resource_snapshot.split)
  ultimately show ?thesis
    by (simp add: snapshot_def Let_def now_emit)
qed

lemma events_block: "events (block env d w) = events w"
  by (simp add: block_def)

lemma events_emit: "events (emit e w) = events w @ [e]"
  by (simp add: emit_def)

lemma readings_block: "readings (block env d w) = readings w"
  by (simp add: block_def)

lemma readings_emit: "readings (emit e w) = readings w"
  by (simp add: emit_def)

lemma monotonic_run:
  "monotonic w = (t, w0) \<Longrightarrow>
     t = now w \<and> now w0 = now w \<and> events w0 = events w \<and> readings w0 = readings w @ [now w]"
  by (auto simp: monotonic_def)

lemma snapshot_events:
  "snapshot env proc w = (s, w1) \<Longrightarrow>
     events w1 = events w @ [Snapshot_taken s] \<and> readings w1 = readings w"
  by (auto simp: snapshot_def Let_def events_emit events_block readings_emit readings_block)

lemma snapshot_now:
  "snapshot env proc w = (s, w1) \<Longrightarrow> now w \<le> now w1"
  using now_snapshot [of w env proc] by simp

text \<open>
  What the drain loop leaves behind: the snapshots it took, in order, and the clock readings
  of its tests. It returns at the first decayed snapshot, or at the first reading that is
  not before the deadline.
\<close>

lemma drain_run:
  "drain env proc base deadline lst w = (r, w') \<Longrightarrow>
     \<exists>ds ts. events w' = events w @ map Snapshot_taken ds \<and> now w \<le> now w'
        \<and> readings w' = readings w @ ts \<and> ts \<noteq> []
        \<and> baseline r = base
        \<and> (if \<exists>s\<in>set ds. decayed base s
             then status r = ''clean'' \<and> final r = Some (last ds) \<and> decayed base (last ds)
                  \<and> (\<forall>s\<in>set (butlast ds). \<not> decayed base s)
             else status r = ''suspect_leak'' \<and> final r = (if ds = [] then lst else Some (last ds))
                  \<and> deadline \<le> last ts \<and> last ts = now w')"
proof (induction env proc base deadline lst w arbitrary: r w' rule: drain.induct)
  case (1 env proc base deadline lst w)
  let ?post = "\<lambda>lst ds ts. baseline r = base
        \<and> (if \<exists>s\<in>set ds. decayed base s
             then status r = ''clean'' \<and> final r = Some (last ds) \<and> decayed base (last ds)
                  \<and> (\<forall>s\<in>set (butlast ds). \<not> decayed base s)
             else status r = ''suspect_leak'' \<and> final r = (if ds = [] then lst else Some (last ds))
                  \<and> deadline \<le> last ts \<and> last ts = now w')"
  obtain t w0 where m: "monotonic w = (t, w0)"
    by (cases "monotonic w")
  from monotonic_run [OF m] have t: "t = now w" and n0: "now w0 = now w"
    and e0: "events w0 = events w" and r0: "readings w0 = readings w @ [now w]"
    by simp_all
  show ?case
  proof (cases "t < deadline")
    case False
    with "1.prems" m have "r = \<lparr>status = ''suspect_leak'', baseline = base, final = lst\<rparr>" "w' = w0"
      by auto
    then have "events w' = events w @ map Snapshot_taken [] \<and> now w \<le> now w'
        \<and> readings w' = readings w @ [now w] \<and> [now w] \<noteq> [] \<and> ?post lst [] [now w]"
      using False t n0 e0 r0 by auto
    then show ?thesis by blast
  next
    case True
    obtain s w1 where sn: "snapshot env proc w0 = (s, w1)"
      by (cases "snapshot env proc w0")
    from snapshot_events [OF sn] e0 r0
    have ev1: "events w1 = events w @ [Snapshot_taken s]" and rd1: "readings w1 = readings w @ [now w]"
      by simp_all
    from snapshot_now [OF sn] n0 have t1: "now w \<le> now w1"
      by simp
    show ?thesis
    proof (cases "decayed base s")
      case d: True
      with True m sn "1.prems" have "r = \<lparr>status = ''clean'', baseline = base, final = Some s\<rparr>" "w' = w1"
        by auto
      then have "events w' = events w @ map Snapshot_taken [s] \<and> now w \<le> now w'
          \<and> readings w' = readings w @ [now w] \<and> [now w] \<noteq> [] \<and> ?post lst [s] [now w]"
        using ev1 rd1 t1 d by auto
      then show ?thesis by blast
    next
      case nd: False
      with True m sn "1.prems"
      have rec: "drain env proc base deadline (Some s) (block env 0.2 w1) = (r, w')"
        by auto
      from "1.IH" [OF m [symmetric] True sn [symmetric] nd rec]
      obtain ds ts where ds: "events w' = events (block env 0.2 w1) @ map Snapshot_taken ds"
        "now (block env 0.2 w1) \<le> now w'"
        "readings w' = readings (block env 0.2 w1) @ ts" "ts \<noteq> []" "?post (Some s) ds ts"
        by blast
      have "events w' = events w @ map Snapshot_taken (s # ds)"
        using ds(1) ev1 by (simp add: events_block)
      moreover have "now w \<le> now w'"
        using ds(2) t1 now_block [of w1 "0.2" env] by linarith
      moreover have "readings w' = readings w @ (now w # ts)"
        using ds(3) rd1 by (simp add: readings_block)
      moreover have "now w # ts \<noteq> []"
        by simp
      moreover have "?post lst (s # ds) (now w # ts)"
        using ds(4,5) nd by (auto split: if_splits)
      ultimately show ?thesis by blast
    qed
  qed
qed

lemma drain_expired:
  "deadline \<le> now w \<Longrightarrow>
     drain env proc base deadline lst w
       = (\<lparr>status = ''suspect_leak'', baseline = base, final = lst\<rparr>, snd (monotonic w))"
  by (simp add: monotonic_def)

lemma find_stdio_child_events:
  "find_stdio_child env stem w = (x, w1) \<Longrightarrow>
     events w1 = events w @ [Children_listed] \<and> now w \<le> now w1 \<and> readings w1 = readings w"
  using now_block [of w "0.1" env]
  by (auto simp: find_stdio_child_def Let_def events_emit events_block now_emit readings_emit
        readings_block split: option.splits)

lemma aclose_events:
  "aclose env sid c w = (x, c1, w1) \<Longrightarrow>
     events w1 = events w @ [Aclose_called sid] \<and> now w1 = now w \<and> readings w1 = readings w"
  by (auto simp: aclose_def Let_def events_emit now_emit readings_emit split: option.splits)

lemma aclose_result:
  "aclose env sid c w = (x, c1, w1) \<Longrightarrow>
     x = (case close_error env sid of None \<Rightarrow> Inr () | Some e \<Rightarrow> Inl e)"
  by (auto simp: aclose_def Let_def split: option.splits)

text \<open>
  Every run of \<open>timeout_tester\<close> ends in one of six ways: before anything was done to the
  outside; after the children were listed and none matched; after the baseline, at the
  unbound names of line 24; at the exception that the awaited call raised; at the exception
  that closing the exit stack raised; or in the drain loop, which returns the result.
\<close>

lemma timeout_tester_run:
  assumes run: "timeout_tester env g c kw w = (res, c', w')"
  shows "(\<exists>e. res = Inl e \<and> w' = w \<and> c' = c)
    \<or> (\<exists>e. res = Inl e \<and> events w' = events w @ [Children_listed])
    \<or> (\<exists>e b. res = Inl e \<and> events w' = events w @ [Children_listed, Snapshot_taken b])
    \<or> (\<exists>e b t. res = Inl e \<and> g_tool g = Some t \<and> await_cancelled env t = Some e
          \<and> events w' = events w @ [Children_listed, Snapshot_taken b, Call_issued t, Cancel_requested])
    \<or> (\<exists>e b t sid. sid = (case kw_server_id kw of None \<Rightarrow> ''1'' | Some x \<Rightarrow> x)
          \<and> res = Inl e \<and> g_tool g = Some t \<and> await_cancelled env t = None
          \<and> close_error env sid = Some e
          \<and> events w' = events w @ [Children_listed, Snapshot_taken b, Call_issued t, Cancel_requested,
                Aclose_called sid])
    \<or> (\<exists>r b t sid proc. \<exists>w6::world. sid = (case kw_server_id kw of None \<Rightarrow> ''1'' | Some x \<Rightarrow> x)
          \<and> res = Inr r \<and> g_tool g = Some t \<and> await_cancelled env t = None
          \<and> close_error env sid = None
          \<and> events w6 = events w @ [Children_listed, Snapshot_taken b, Call_issued t, Cancel_requested,
                Aclose_called sid]
          \<and> now w \<le> now w6
          \<and> drain env proc b (now w6 + (case kw_grace kw of None \<Rightarrow> 5 | Some x \<Rightarrow> x)) None w6 = (r, w')
          \<and> readings w6 = readings w @ [now w6])"
proof -
  let ?grace = "case kw_grace kw of None \<Rightarrow> 5 | Some x \<Rightarrow> x"
  let ?sid = "case kw_server_id kw of None \<Rightarrow> ''1'' | Some x \<Rightarrow> x"
  note d = timeout_tester_def Let_def
  show ?thesis
  proof (cases "transport_name c")
    case None
    with run show ?thesis by (auto simp add: d)
  next
    case tn: (Some tn)
    show ?thesis
    proof (cases "tn = ''stdio''")
      case False
      with run tn show ?thesis by (auto simp add: d)
    next
      case stdio: True
      show ?thesis
      proof (cases "transport_params c")
        case None
        with run tn stdio show ?thesis by (auto simp add: d)
      next
        case tp: (Some tp)
        show ?thesis
        proof (cases "tp ?sid")
          case None
          with run tn stdio tp show ?thesis by (auto simp add: d)
        next
          case cfg: (Some cfg)
          show ?thesis
          proof (cases "cfg_server_params cfg")
            case None
            with run tn stdio tp cfg show ?thesis by (auto simp add: d)
          next
            case sp: (Some sp)
            show ?thesis
            proof (cases "sessions c ?sid")
              case None
              with run tn stdio tp cfg sp show ?thesis by (auto simp add: d)
            next
              case se: (Some se)
              show ?thesis
              proof (cases "map_of (exit_stacks c) ?sid")
                case None
                with run tn stdio tp cfg sp se show ?thesis by (auto simp add: d)
              next
                case st: (Some st)
                note look = tn stdio tp cfg sp se st
                obtain x w1 where f: "find_stdio_child env
                    (py_lower (last (py_split (os_sep env) (command sp)))) w = (x, w1)"
                  by (cases "find_stdio_child env
                    (py_lower (last (py_split (os_sep env) (command sp)))) w")
                note e1 = find_stdio_child_events [OF f]
                show ?thesis
                proof (cases x)
                  case (Inl e)
                  with run look f have "res = Inl e" "w' = w1" by (simp_all add: d)
                  with e1 show ?thesis by simp
                next
                  case (Inr proc)
                  obtain b w2 where sn: "snapshot env proc w1 = (b, w2)"
                    by (cases "snapshot env proc w1")
                  have e2: "events w2 = events w @ [Children_listed, Snapshot_taken b]"
                    using snapshot_events [OF sn] e1 by simp
                  have t2: "now w \<le> now w2"
                    using snapshot_now [OF sn] e1 by simp
                  have r2: "readings w2 = readings w"
                    using snapshot_events [OF sn] e1 by simp
                  show ?thesis
                  proof (cases "g_tool g")
                    case None
                    with run look f Inr sn have "res = Inl (NameError ''tool'')" "w' = w2"
                      by (simp_all add: d)
                    with e2 show ?thesis by simp
                  next
                    case t: (Some t)
                    show ?thesis
                    proof (cases "g_args g")
                      case None
                      with run look f Inr sn t have "res = Inl (NameError ''args'')" "w' = w2"
                        by (simp_all add: d)
                      with e2 show ?thesis by simp
                    next
                      case ta: (Some ta)
                      let ?w5 = "emit Cancel_requested (block env 0.2 (emit (Call_issued t) w2))"
                      have e5: "events ?w5 = events w @ [Children_listed, Snapshot_taken b,
                          Call_issued t, Cancel_requested]"
                        using e2 by (simp add: events_emit events_block)
                      have t5: "now w \<le> now ?w5"
                        using t2 now_block [of "emit (Call_issued t) w2" "0.2" env]
                        by (simp add: now_emit)
                      have r5: "readings ?w5 = readings w"
                        using r2 by (simp add: readings_emit readings_block)
                      show ?thesis
                      proof (cases "await_cancelled env t")
                        case (Some e)
                        with run look f Inr sn t ta have "res = Inl e" "w' = ?w5"
                          by (simp_all add: d)
                        with e5 t Some show ?thesis by simp
                      next
                        case aw: None
                        obtain y c6 w5' where ac: "aclose env ?sid c ?w5 = (y, c6, w5')"
                          by (cases "aclose env ?sid c ?w5")
                        note e6 = aclose_events [OF ac] and r6 = aclose_result [OF ac]
                        show ?thesis
                        proof (cases "close_error env ?sid")
                          case (Some e)
                          with r6 have "y = Inl e" by simp
                          with run look f Inr sn t ta aw ac
                          have "res = Inl e" "w' = w5'"
                            by (simp_all add: d)
                          with e5 e6 t aw Some show ?thesis by auto
                        next
                          case ce: None
                          with r6 have y: "y = Inr ()" by simp
                          obtain t0 w6 where m: "monotonic w5' = (t0, w6)"
                            by (cases "monotonic w5'")
                          from monotonic_run [OF m]
                          have t0: "t0 = now w6" and n6: "now w6 = now w5'"
                            and ev6: "events w6 = events w5'"
                            and rd6: "readings w6 = readings w5' @ [now w6]"
                            by simp_all
                          obtain r w7 where dr: "drain env proc b (now w6 + ?grace) None w6 = (r, w7)"
                            by (cases "drain env proc b (now w6 + ?grace) None w6")
                          from run look f Inr sn t ta aw ac y m dr
                          have res: "res = Inr r" "w' = w7"
                            by (simp_all add: d t0)
                          have "events w6 = events w @ [Children_listed, Snapshot_taken b,
                              Call_issued t, Cancel_requested, Aclose_called ?sid]"
                            using e5 e6 ev6 by simp
                          moreover have "now w \<le> now w6"
                            using t5 e6 n6 by simp
                          moreover have "readings w6 = readings w @ [now w6]"
                            using r5 e6 rd6 by simp
                          ultimately have "?sid = ?sid \<and> res = Inr r \<and> g_tool g = Some t \<and> await_cancelled env t = None
                              \<and> close_error env ?sid = None
                              \<and> events w6 = events w @ [Children_listed, Snapshot_taken b,
                                    Call_issued t, Cancel_requested, Aclose_called ?sid]
                              \<and> now w \<le> now w6
                              \<and> drain env proc b (now w6 + ?grace) None w6 = (r, w')
                              \<and> readings w6 = readings w @ [now w6]"
                            using res t aw ce dr by simp
                          then show ?thesis
                            by (intro disjI2) blast
                        qed
                      qed
                    qed
                  qed
                qed
              qed
            qed
          qed
        qed
      qed
    qed
  qed
qed

lemma timeout_tester_cases [consumes 1, case_names early no_child unbound call_raised close_raised drained]:
  assumes "timeout_tester env g c kw w = (res, c', w')"
  obtains e where "res = Inl e" "w' = w" "c' = c"
  | e where "res = Inl e" "events w' = events w @ [Children_listed]"
  | e b where "res = Inl e" "events w' = events w @ [Children_listed, Snapshot_taken b]"
  | e b t where "res = Inl e" "g_tool g = Some t" "await_cancelled env t = Some e"
      "events w' = events w @ [Children_listed, Snapshot_taken b, Call_issued t, Cancel_requested]"
  | e b t sid where "sid = (case kw_server_id kw of None \<Rightarrow> ''1'' | Some x \<Rightarrow> x)"
      "res = Inl e" "g_tool g = Some t" "await_cancelled env t = None"
      "close_error env sid = Some e"
      "events w' = events w @ [Children_listed, Snapshot_taken b, Call_issued t, Cancel_requested,
          Aclose_called sid]"
  | r b t sid proc and w6 :: world where "sid = (case kw_server_id kw of None \<Rightarrow> ''1'' | Some x \<Rightarrow> x)"
      "res = Inr r" "g_tool g = Some t" "await_cancelled env t = None"
      "close_error env sid = None"
      "events w6 = events w @ [Children_listed, Snapshot_taken b, Call_issued t, Cancel_requested,
          Aclose_called sid]"
      "now w \<le> now w6"
      "drain env proc b (now w6 + (case kw_grace kw of None \<Rightarrow> 5 | Some x \<Rightarrow> x)) None w6 = (r, w')"
      "readings w6 = readings w @ [now w6]"
  using timeout_tester_run [OF assms]
  apply (elim disjE exE conjE)
       apply (rule that(1); assumption)
      apply (rule that(2); assumption)
     apply (rule that(3); assumption)
    apply (rule that(4); assumption)
   apply (rule that(5); assumption)
  apply (rule that(6); assumption)
  done

lemma snapshots_of_append: "snapshots_of (xs @ ys) = snapshots_of xs @ snapshots_of ys"
  by (induction xs rule: snapshots_of.induct) auto

lemma snapshots_of_map: "snapshots_of (map Snapshot_taken ds) = ds"
  by (induction ds) auto

lemma find_last:
  "ds \<noteq> [] \<Longrightarrow> P (last ds) \<Longrightarrow> \<forall>s\<in>set (butlast ds). \<not> P s \<Longrightarrow> List.find P ds = Some (last ds)"
  by (induction ds) (auto split: if_splits)

lemma split_before_snapshots:
  assumes "pre @ e # post = xs @ map Snapshot_taken ds" and "\<And>s. e \<noteq> Snapshot_taken s"
  shows "\<exists>post'. xs = pre @ e # post' \<and> post = post' @ map Snapshot_taken ds"
proof -
  from assms(1) consider us where "pre = xs @ us" "us @ e # post = map Snapshot_taken ds"
    | us where "pre @ us = xs" "e # post = us @ map Snapshot_taken ds"
    by (auto simp: append_eq_append_conv2)
  then show ?thesis
  proof cases
    case 1
    then have "e \<in> set (map Snapshot_taken ds)"
      by (metis in_set_conv_decomp)
    with assms(2) show ?thesis by auto
  next
    case 2
    show ?thesis
    proof (cases us)
      case Nil
      with 2 have "e \<in> set (map Snapshot_taken ds)"
        by (metis append_Nil list.set_intros(1))
      with assms(2) show ?thesis by auto
    next
      case (Cons u us')
      with 2 show ?thesis by auto
    qed
  qed
qed

lemma await_cancelled_None:
  "await_cancelled env t = None \<longleftrightarrow> (call_outcome env t = Returned \<or> call_outcome env t = Raised CancelledError)"
  by (auto simp: await_cancelled_def split: task_outcome.splits)

lemma await_cancelled_Some:
  "await_cancelled env t = Some e \<longleftrightarrow> (call_outcome env t = Raised e \<and> e \<noteq> CancelledError)"
  by (auto simp: await_cancelled_def split: task_outcome.splits)










text \<open>
  The keys of \<open>exit_stacks\<close> stay distinct, and every server with a session keeps an exit
  stack, under the methods of the class.
\<close>

lemma MCPTesterClient_keys:
  "distinct (map fst (exit_stacks (MCPTesterClient tr)))
   \<and> dom (sessions (MCPTesterClient tr)) \<subseteq> fst ` set (exit_stacks (MCPTesterClient tr))"
  by (simp add: MCPTesterClient_def)

lemma add_server_keys:
  "exit_stacks (add_server c sid cfg) = exit_stacks c \<and> sessions (add_server c sid cfg) = sessions c"
  by (simp add: add_server_def)

lemma connect_server_stdio_keys:
  assumes "connect_server_stdio env c sid sp w = (res, c', w')"
    and "distinct (map fst (exit_stacks c))"
    and "dom (sessions c) \<subseteq> fst ` set (exit_stacks c)"
  shows "distinct (map fst (exit_stacks c')) \<and> dom (sessions c') \<subseteq> fst ` set (exit_stacks c')"
proof -
  have d: "distinct (map fst (AList.map_entry k f (AList.map_entry k' f' (AList.update sid [] (exit_stacks c)))))"
    for k k' :: string and f f' :: "exit_stack \<Rightarrow> exit_stack"
    using assms(2) by (intro AList.distinct_map_entry AList.distinct_update)
  have k: "fst ` set (AList.map_entry k f (AList.map_entry k' f' (AList.update sid [] (exit_stacks c))))
      = insert sid (fst ` set (exit_stacks c))"
    for k k' :: string and f f' :: "exit_stack \<Rightarrow> exit_stack"
    by (simp add: AList.dom_map_entry AList.dom_update)
  have m: "x \<in> fst ` set (exit_stacks c)" if "sessions c x = Some y" for x y
    using assms(3) that by blast
  from assms(1) show ?thesis
    using assms(2) d k m
    by (auto simp: connect_server_stdio_def Let_def enter_async_context_def AList.distinct_update
          AList.dom_update split: option.splits if_splits)
qed

section \<open>The module as it stands\<close>

text \<open>
  Remarks that belong to no claim. The class sets \<open>transport\<close> and never
  \<open>transport_name\<close>; on an object that has the attribute with another value than
  \<open>stdio\<close>, line 11 raises its \<open>RuntimeError\<close>, and on an object without the attribute
  line 10 raises \<open>AttributeError\<close>, in both cases before anything else is done. The
  names \<open>tool\<close> and \<open>args\<close> of line 24 are bound nowhere in the module; as long as
  they are not, no run returns a result.
\<close>

lemma MCPTesterClient_transport_name:
  "transport_name (MCPTesterClient tr) = None
   \<and> transport_name (add_server c server_id params) = transport_name c"
  by (simp add: MCPTesterClient_def add_server_def)

lemma timeout_tester_named_transport:
  "transport_name c = Some tn \<Longrightarrow> tn \<noteq> ''stdio'' \<Longrightarrow>
     timeout_tester env g c kw w
       = (Inl (RuntimeError ''timeout_tester only works with stdio transport''), c, w)"
  by (simp add: timeout_tester_def)

lemma timeout_tester_without_transport_name:
  "transport_name c = None \<Longrightarrow>
     timeout_tester env g c kw w = (Inl (AttributeError ''transport_name''), c, w)"
  by (simp add: timeout_tester_def)

lemma timeout_tester_unbound_tool:
  assumes "timeout_tester env g c kw w = (res, c', w')" and "g_tool g = None"
  shows "\<exists>e. res = Inl e"
  using assms(1)
proof (cases rule: timeout_tester_cases)
  case (call_raised e b t)
  with assms(2) show ?thesis by simp
next
  case (close_raised msg b t sid)
  with assms(2) show ?thesis by simp
next
  case (drained r b t sid proc w6)
  with assms(2) show ?thesis by simp
qed blast+

section \<open>The claims\<close>

subsection \<open>C1: the first decayed snapshot decides a clean result\<close>

text \<open>
  Claim C1. Take any run of \<open>timeout_tester\<close> that starts with an empty log, and write
  \<open>base\<close> for the first snapshot it took (the baseline) and \<open>ds\<close> for the snapshots
  after it (the drain snapshots; each was taken in an iteration whose clock reading was
  before the deadline). If some drain snapshot satisfies the four decay conditions, the run
  returns the result with status \<open>clean\<close>, this baseline, and as \<open>final\<close> the first drain
  snapshot that satisfies them. That snapshot is the last one taken: the loop returned at
  once. The decay conditions are the ones of \<open>decayed\<close>, the memory test in the float
  arithmetic of Python.
\<close>

theorem timeout_tester_clean_at_first_decayed:
  assumes run: "timeout_tester env g c kw w = (res, c', w')"
    and fresh: "events w = []"
    and snaps: "snapshots_of (events w') = base # ds"
    and some: "\<exists>s\<in>set ds. decayed base s"
  shows "res = Inr \<lparr>status = ''clean'', baseline = base, final = List.find (decayed base) ds\<rparr>
    \<and> List.find (decayed base) ds = Some (last ds)"
  using run
proof (cases rule: timeout_tester_cases)
  case (early e)
  with fresh snaps show ?thesis by simp
next
  case (no_child e)
  with fresh snaps show ?thesis by simp
next
  case (unbound e b)
  with fresh snaps some show ?thesis by simp
next
  case (call_raised e b t)
  with fresh snaps some show ?thesis by simp
next
  case (close_raised msg b t sid)
  with fresh snaps some show ?thesis by simp
next
  case (drained r b t sid proc w6)
  from drain_run [OF drained(8)] obtain ds' ts where
    ev: "events w' = events w6 @ map Snapshot_taken ds'" and
    post: "baseline r = b" "if \<exists>s\<in>set ds'. decayed b s
             then status r = ''clean'' \<and> final r = Some (last ds') \<and> decayed b (last ds')
                  \<and> (\<forall>s\<in>set (butlast ds'). \<not> decayed b s)
             else status r = ''suspect_leak'' \<and> final r = (if ds' = [] then None else Some (last ds'))
                  \<and> now w6 + (case kw_grace kw of None \<Rightarrow> 5 | Some x \<Rightarrow> x) \<le> last ts
                  \<and> last ts = now w'"
    by blast
  have "snapshots_of (events w') = b # ds'"
    using ev drained(6) fresh by (simp add: snapshots_of_append snapshots_of_map)
  with snaps have eq: "b = base" "ds' = ds" by simp_all
  with post some have r: "baseline r = base" "status r = ''clean''" "final r = Some (last ds)"
    and l: "decayed base (last ds)" "\<forall>s\<in>set (butlast ds). \<not> decayed base s"
    by simp_all
  from some have "ds \<noteq> []" by auto
  then have f: "List.find (decayed base) ds = Some (last ds)"
    using l by (rule find_last)
  have "r = \<lparr>status = ''clean'', baseline = base, final = List.find (decayed base) ds\<rparr>"
    using r f by (cases r) simp
  with drained(2) f show ?thesis by simp
qed

text \<open>
  The run on the example: the first drain snapshot is still busy, the second has decayed and
  is returned.
\<close>

theorem timeout_tester_clean_at_first_decayed_witness:
  "events example_start = []
   \<and> snapshots_of (events (snd (snd (timeout_tester example_env example_globals example_client
          example_kwargs example_start))))
       = Usage 50000000 3.5 4 (Some 12) None 0
         # [Usage 200000000 40 9 (Some 30) None 2, Usage 48000000 1.0 5 (Some 12) None 0]
   \<and> (\<exists>s\<in>set [Usage 200000000 40 9 (Some 30) None 2, Usage 48000000 1.0 5 (Some 12) None 0].
          decayed (Usage 50000000 3.5 4 (Some 12) None 0) s)
   \<and> fst (timeout_tester example_env example_globals example_client example_kwargs example_start)
       = Inr \<lparr>status = ''clean'', baseline = Usage 50000000 3.5 4 (Some 12) None 0,
              final = Some (Usage 48000000 1.0 5 (Some 12) None 0)\<rparr>"
proof -
  let ?X = "timeout_tester example_env example_globals example_client example_kwargs example_start"
  let ?b = "Usage 50000000 3.5 4 (Some 12) None 0"
  let ?ds = "[Usage 200000000 40 9 (Some 30) None 2, Usage 48000000 1.0 5 (Some 12) None 0]"
  have run: "?X = (fst ?X, fst (snd ?X), snd (snd ?X))"
    by simp
  have fresh: "events example_start = []"
    by (simp add: example_start_def)
  have snaps: "snapshots_of (events (snd (snd ?X))) = ?b # ?ds"
    by code_simp
  have some: "\<exists>s\<in>set ?ds. decayed ?b s"
    by code_simp
  have fnd: "List.find (decayed ?b) ?ds = Some (Usage 48000000 1.0 5 (Some 12) None 0)"
    by code_simp
  from timeout_tester_clean_at_first_decayed [OF run fresh snaps some]
  have "fst ?X = Inr \<lparr>status = ''clean'', baseline = ?b, final = List.find (decayed ?b) ?ds\<rparr>"
    by (rule conjunct1)
  with fnd have "fst ?X = Inr \<lparr>status = ''clean'', baseline = ?b,
      final = Some (Usage 48000000 1.0 5 (Some 12) None 0)\<rparr>"
    by (simp only:)
  with fresh snaps some show ?thesis
    by (intro conjI)
qed

subsection \<open>C2: no decayed snapshot gives a suspected leak\<close>




subsection \<open>C3: a handshake that times out\<close>

text \<open>
  Claim C3, as amended. When the transport starts and the handshake times out,
  \<open>connect_server_stdio\<close> raises nothing: it returns \<open>None\<close>, removes the entry of the
  server from \<open>sessions\<close> (the sessions of the other servers stay), and logs the timeout
  as an error.
\<close>

theorem connect_server_stdio_timeout:
  assumes "spawn_error env server_id = None" and "initialize_error env server_id = Some TimeoutError"
    and "connect_server_stdio env c server_id sp w = (res, c', w')"
  shows "res = Inr None \<and> sessions c' server_id = None
    \<and> (\<forall>other. other \<noteq> server_id \<longrightarrow> sessions c' other = sessions c other)
    \<and> events w' = events w @ [Error_logged (''Timeout while initializing session for server '' @ server_id)]"
  using assms by (auto simp: connect_server_stdio_def Let_def enter_async_context_def events_emit)

theorem connect_server_stdio_timeout_witness:
  "spawn_error timeout_env ''1'' = None \<and> initialize_error timeout_env ''1'' = Some TimeoutError
   \<and> fst (connect_server_stdio timeout_env (MCPTesterClient (Some ''stdio'')) ''1'' example_params
          example_start) = Inr None
   \<and> sessions (fst (snd (connect_server_stdio timeout_env (MCPTesterClient (Some ''stdio'')) ''1''
          example_params example_start))) ''1'' = None
   \<and> events (snd (snd (connect_server_stdio timeout_env (MCPTesterClient (Some ''stdio'')) ''1''
          example_params example_start)))
       = events example_start @ [Error_logged (''Timeout while initializing session for server '' @ ''1'')]"
proof -
  let ?C = "connect_server_stdio timeout_env (MCPTesterClient (Some ''stdio'')) ''1'' example_params
          example_start"
  have s: "spawn_error timeout_env ''1'' = None" and i: "initialize_error timeout_env ''1'' = Some TimeoutError"
    by (simp_all add: timeout_env_def example_env_def)
  have run: "?C = (fst ?C, fst (snd ?C), snd (snd ?C))"
    by simp
  note t = connect_server_stdio_timeout [OF s i run]
  from t have "fst ?C = Inr None" "sessions (fst (snd ?C)) ''1'' = None"
    "events (snd (snd ?C)) = events example_start
       @ [Error_logged (''Timeout while initializing session for server '' @ ''1'')]"
    by simp_all
  with s i show ?thesis
    by (intro conjI)
qed

text \<open>
  The claim as it was written fails on a fresh client: the call returns \<open>None\<close> instead of
  failing, and the exit stack registered for the server still holds the session and the
  transport, since line 94 never awaits \<open>aclose()\<close>.
\<close>

theorem connect_server_stdio_timeout_leaves_stack_open:
  "fst (connect_server_stdio timeout_env (MCPTesterClient (Some ''stdio'')) ''1'' example_params
          example_start) = Inr None
   \<and> exit_stacks (fst (snd (connect_server_stdio timeout_env (MCPTesterClient (Some ''stdio'')) ''1''
          example_params example_start)))
     = [(''1'', [Session_context (ClientSession (Stdio_streams example_params)),
                Transport_context (Stdio_streams example_params)])]"
  by code_simp

subsection \<open>C4: registering an id twice\<close>

text \<open>
  Claim C4, as amended. \<open>add_server\<close> has no failure: called with an id that is already
  registered, it replaces the configuration of that id by the new one. The ids that are
  registered stay the same ones, the other configurations, the sessions and the exit stacks
  are left as they were.
\<close>

theorem add_server_replaces:
  assumes "server_params c server_id = Some old"
  shows "server_params (add_server c server_id new) server_id = Some new
    \<and> (\<forall>other. other \<noteq> server_id \<longrightarrow>
          server_params (add_server c server_id new) other = server_params c other)
    \<and> dom (server_params (add_server c server_id new)) = dom (server_params c)
    \<and> sessions (add_server c server_id new) = sessions c
    \<and> exit_stacks (add_server c server_id new) = exit_stacks c"
  using assms by (auto simp: add_server_def)

theorem add_server_replaces_witness:
  "server_params (add_server (MCPTesterClient (Some ''stdio'')) ''1'' example_config) ''1''
     = Some example_config
   \<and> server_params (add_server (add_server (MCPTesterClient (Some ''stdio'')) ''1'' example_config)
       ''1'' other_config) ''1'' = Some other_config
   \<and> dom (server_params (add_server (add_server (MCPTesterClient (Some ''stdio'')) ''1'' example_config)
       ''1'' other_config))
     = dom (server_params (add_server (MCPTesterClient (Some ''stdio'')) ''1'' example_config))"
proof -
  let ?c = "add_server (MCPTesterClient (Some ''stdio'')) ''1'' example_config"
  have h: "server_params ?c ''1'' = Some example_config"
    by (simp add: add_server_def)
  note t = add_server_replaces [OF h, of other_config]
  from t have "server_params (add_server ?c ''1'' other_config) ''1'' = Some other_config"
    "dom (server_params (add_server ?c ''1'' other_config)) = dom (server_params ?c)"
    by simp_all
  with h show ?thesis
    by (intro conjI)
qed

text \<open>
  The claim as it was written fails: the second registration of the id \<open>1\<close> goes through
  and the configuration that was registered first is gone.
\<close>

theorem add_server_twice_replaces:
  "server_params (add_server (add_server (MCPTesterClient (Some ''stdio'')) ''1'' example_config)
       ''1'' other_config) ''1'' = Some other_config
   \<and> other_config \<noteq> example_config"
  by code_simp

subsection \<open>C5: cleanup closes every exit stack\<close>




subsection \<open>C6: a client on another transport\<close>

text \<open>
  Claim C6 does not hold of the code. A client that the class builds for the other
  transport, \<open>MCPTesterClient(transport="https")\<close> with its server registered as in
  lines 145 to 150 of \<open>run.py\<close>, has the
  attribute \<open>transport\<close> and no attribute \<open>transport_name\<close>. On it, line 10 of
  \<open>timeout_tester\<close> raises \<open>AttributeError\<close>, and not the \<open>RuntimeError\<close> of line 11 that
  says that the transport is not supported. The client and the world are left as they were:
  no child is looked for and no snapshot is taken.
\<close>

theorem timeout_tester_on_https_client:
  "timeout_tester env g (add_server (MCPTesterClient (Some ''https'')) server_id params) kw w
     = (Inl (AttributeError ''transport_name''),
        add_server (MCPTesterClient (Some ''https'')) server_id params, w)"
  by (simp add: timeout_tester_def MCPTesterClient_def add_server_def)

subsection \<open>C7: what the probe does with the outcome of the cancelled call\<close>

text \<open>
  Claim C7, as amended. Take a run of \<open>timeout_tester\<close> that starts with an empty log and
  reaches the request for cancellation. If awaiting the call returns or raises
  \<open>CancelledError\<close>, the probe goes on: it closes the exit stack of the server, and then
  returns a result from the drain loop, or raises what the close raised. If awaiting the
  call raises any other exception, that exception leaves \<open>timeout_tester\<close>: the exit stack
  is not closed and no drain snapshot is taken.
\<close>

theorem timeout_tester_after_cancel:
  assumes run: "timeout_tester env g c kw w = (res, c', w')"
    and fresh: "events w = []"
    and reached: "Cancel_requested \<in> set (events w')"
    and tool: "g_tool g = Some t"
  shows "((call_outcome env t = Returned \<or> call_outcome env t = Raised CancelledError) \<longrightarrow>
            Aclose_called (case kw_server_id kw of None \<Rightarrow> ''1'' | Some x \<Rightarrow> x) \<in> set (events w')
            \<and> (case close_error env (case kw_server_id kw of None \<Rightarrow> ''1'' | Some x \<Rightarrow> x) of
                 None \<Rightarrow> \<exists>r. res = Inr r
               | Some x \<Rightarrow> res = Inl x))
       \<and> (\<forall>e. call_outcome env t = Raised e \<and> e \<noteq> CancelledError \<longrightarrow>
            res = Inl e \<and> (\<forall>sid. Aclose_called sid \<notin> set (events w'))
            \<and> length (snapshots_of (events w')) = 1)"
  using run
proof (cases rule: timeout_tester_cases)
  case (early e)
  with fresh reached show ?thesis by simp
next
  case (no_child e)
  with fresh reached show ?thesis by simp
next
  case (unbound e b)
  with fresh reached show ?thesis by simp
next
  case (call_raised e b t')
  with tool have "call_outcome env t = Raised e" "e \<noteq> CancelledError"
    by (simp_all add: await_cancelled_Some)
  with call_raised fresh show ?thesis by auto
next
  case (close_raised msg b t' sid)
  with tool have "call_outcome env t = Returned \<or> call_outcome env t = Raised CancelledError"
    by (simp add: await_cancelled_None)
  with close_raised fresh show ?thesis by auto
next
  case (drained r b t' sid proc w6)
  with tool have o: "call_outcome env t = Returned \<or> call_outcome env t = Raised CancelledError"
    by (simp add: await_cancelled_None)
  from drain_run [OF drained(8)] obtain ds where
    ev: "events w' = events w6 @ map Snapshot_taken ds"
    by blast
  with drained(6) have "Aclose_called sid \<in> set (events w')"
    by simp
  with o drained(1,2,5) show ?thesis by auto
qed

text \<open>
  Both branches: the example, where the call is cancelled, and the same run with a call that
  fails.
\<close>

theorem timeout_tester_after_cancel_witness:
  "events example_start = []
   \<and> g_tool example_globals = Some ''slow_tool''
   \<and> Cancel_requested \<in> set (events (snd (snd (timeout_tester example_env example_globals
          example_client example_kwargs example_start))))
   \<and> call_outcome example_env ''slow_tool'' = Raised CancelledError
   \<and> Aclose_called ''1'' \<in> set (events (snd (snd (timeout_tester example_env example_globals
          example_client example_kwargs example_start))))
   \<and> (\<exists>r. fst (timeout_tester example_env example_globals example_client example_kwargs
          example_start) = Inr r)
   \<and> Cancel_requested \<in> set (events (snd (snd (timeout_tester failing_call_env example_globals
          example_client example_kwargs example_start))))
   \<and> call_outcome failing_call_env ''slow_tool'' = Raised (Exception ''tool failed'')
   \<and> fst (timeout_tester failing_call_env example_globals example_client example_kwargs
          example_start) = Inl (Exception ''tool failed'')
   \<and> Aclose_called ''1'' \<notin> set (events (snd (snd (timeout_tester failing_call_env example_globals
          example_client example_kwargs example_start))))"
proof -
  let ?X = "timeout_tester example_env example_globals example_client example_kwargs example_start"
  let ?Y = "timeout_tester failing_call_env example_globals example_client example_kwargs example_start"
  have fresh: "events example_start = []"
    by (simp add: example_start_def)
  have tool: "g_tool example_globals = Some ''slow_tool''"
    by (simp add: example_globals_def)
  have sid: "(case kw_server_id example_kwargs of None \<Rightarrow> ''1'' | Some x \<Rightarrow> x) = ''1''"
    by (simp add: example_kwargs_def)
  have ce: "close_error example_env ''1'' = None"
    by (simp add: example_env_def)
  have runX: "?X = (fst ?X, fst (snd ?X), snd (snd ?X))" and runY: "?Y = (fst ?Y, fst (snd ?Y), snd (snd ?Y))"
    by simp_all
  have reachedX: "Cancel_requested \<in> set (events (snd (snd ?X)))"
    by code_simp
  have reachedY: "Cancel_requested \<in> set (events (snd (snd ?Y)))"
    by code_simp
  have oX: "call_outcome example_env ''slow_tool'' = Raised CancelledError"
    by (simp add: example_env_def)
  have oY: "call_outcome failing_call_env ''slow_tool'' = Raised (Exception ''tool failed'')"
    by (simp add: failing_call_env_def example_env_def)
  from timeout_tester_after_cancel [OF runX fresh reachedX tool] oX
  have "Aclose_called ''1'' \<in> set (events (snd (snd ?X)))
      \<and> (case close_error example_env ''1'' of None \<Rightarrow> \<exists>r. fst ?X = Inr r
          | Some x \<Rightarrow> fst ?X = Inl x)"
    unfolding sid by blast
  then have X: "Aclose_called ''1'' \<in> set (events (snd (snd ?X)))" "\<exists>r. fst ?X = Inr r"
    unfolding ce by simp_all
  from timeout_tester_after_cancel [OF runY fresh reachedY tool] oY
  have Y: "fst ?Y = Inl (Exception ''tool failed'')" "Aclose_called ''1'' \<notin> set (events (snd (snd ?Y)))"
    by blast+
  from fresh tool reachedX oX X reachedY oY Y show ?thesis
    by (intro conjI)
qed

text \<open>
  The claim as it was written fails when the call raises an ordinary exception: the run ends
  with that exception, and its log stops at the request for cancellation.
\<close>

theorem timeout_tester_call_error_aborts:
  "fst (timeout_tester failing_call_env example_globals example_client example_kwargs example_start)
     = Inl (Exception ''tool failed'')
   \<and> events (snd (snd (timeout_tester failing_call_env example_globals example_client example_kwargs
          example_start)))
     = [Children_listed, Snapshot_taken (Usage 50000000 3.5 4 (Some 12) None 0),
        Call_issued ''slow_tool'', Cancel_requested]"
  by code_simp

subsection \<open>C8: looking for the child process\<close>




subsection \<open>C9: the order of the steps\<close>

text \<open>
  Claim C9. In the log of any run of \<open>timeout_tester\<close> that starts with an empty log,
  whatever precedes the issue of the call holds a snapshot, which is the baseline of the
  result when the run returns one; and whatever precedes the closing of the exit stack holds
  the request for cancellation, while nothing after the closing does.
\<close>

theorem timeout_tester_order:
  assumes run: "timeout_tester env g c kw w = (res, c', w')"
    and fresh: "events w = []"
  shows "(\<forall>pre post t. events w' = pre @ Call_issued t # post \<longrightarrow>
            (\<exists>b. Snapshot_taken b \<in> set pre \<and> (\<forall>r. res = Inr r \<longrightarrow> baseline r = b)))
       \<and> (\<forall>pre post sid. events w' = pre @ Aclose_called sid # post \<longrightarrow>
            Cancel_requested \<in> set pre \<and> Cancel_requested \<notin> set post)"
  using run
proof (cases rule: timeout_tester_cases)
  case (early e)
  with fresh show ?thesis by simp
next
  case (no_child e)
  with fresh show ?thesis by (auto simp: append_eq_Cons_conv Cons_eq_append_conv)
next
  case (unbound e b)
  with fresh show ?thesis by (auto simp: append_eq_Cons_conv Cons_eq_append_conv)
next
  case (call_raised e b t)
  with fresh show ?thesis by (auto simp: append_eq_Cons_conv Cons_eq_append_conv)
next
  case (close_raised msg b t sid)
  with fresh show ?thesis by (auto simp: append_eq_Cons_conv Cons_eq_append_conv)
next
  case (drained r b t sid proc w6)
  from drain_run [OF drained(8)] obtain ds where
    ev: "events w' = events w6 @ map Snapshot_taken ds" and bl: "baseline r = b"
    by blast
  let ?five = "[Children_listed, Snapshot_taken b, Call_issued t, Cancel_requested, Aclose_called sid]"
  have ev': "events w' = ?five @ map Snapshot_taken ds"
    using ev drained(6) fresh by simp
  have call: "\<exists>b'. Snapshot_taken b' \<in> set pre \<and> (\<forall>r'. res = Inr r' \<longrightarrow> baseline r' = b')"
    if "events w' = pre @ Call_issued t' # post" for pre post t'
  proof -
    from that ev' have "pre @ Call_issued t' # post = ?five @ map Snapshot_taken ds" by simp
    from split_before_snapshots [OF this] obtain post' where "?five = pre @ Call_issued t' # post'"
      by auto
    then have "pre = [Children_listed, Snapshot_taken b]"
      by (auto simp: append_eq_Cons_conv Cons_eq_append_conv)
    with bl drained(2) show ?thesis by auto
  qed
  have close: "Cancel_requested \<in> set pre \<and> Cancel_requested \<notin> set post"
    if "events w' = pre @ Aclose_called sid' # post" for pre post sid'
  proof -
    from that ev' have "pre @ Aclose_called sid' # post = ?five @ map Snapshot_taken ds" by simp
    from split_before_snapshots [OF this] obtain post' where
      p: "?five = pre @ Aclose_called sid' # post'" "post = post' @ map Snapshot_taken ds"
      by auto
    from p(1) have "pre = [Children_listed, Snapshot_taken b, Call_issued t, Cancel_requested] \<and> post' = []"
      by (auto simp: append_eq_Cons_conv Cons_eq_append_conv)
    with p(2) show ?thesis by auto
  qed
  from call close show ?thesis by blast
qed

theorem timeout_tester_order_witness:
  "events example_start = []
   \<and> events (snd (snd (timeout_tester example_env example_globals example_client example_kwargs
          example_start)))
       = [Children_listed, Snapshot_taken (Usage 50000000 3.5 4 (Some 12) None 0)]
         @ Call_issued ''slow_tool''
         # [Cancel_requested, Aclose_called ''1'',
            Snapshot_taken (Usage 200000000 40 9 (Some 30) None 2),
            Snapshot_taken (Usage 48000000 1.0 5 (Some 12) None 0)]
   \<and> (\<exists>b. Snapshot_taken b \<in> set [Children_listed, Snapshot_taken (Usage 50000000 3.5 4 (Some 12) None 0)])
   \<and> events (snd (snd (timeout_tester example_env example_globals example_client example_kwargs
          example_start)))
       = [Children_listed, Snapshot_taken (Usage 50000000 3.5 4 (Some 12) None 0),
          Call_issued ''slow_tool'', Cancel_requested]
         @ Aclose_called ''1''
         # [Snapshot_taken (Usage 200000000 40 9 (Some 30) None 2),
            Snapshot_taken (Usage 48000000 1.0 5 (Some 12) None 0)]
   \<and> Cancel_requested \<in> set [Children_listed, Snapshot_taken (Usage 50000000 3.5 4 (Some 12) None 0),
          Call_issued ''slow_tool'', Cancel_requested]
   \<and> Cancel_requested \<notin> set [Snapshot_taken (Usage 200000000 40 9 (Some 30) None 2),
            Snapshot_taken (Usage 48000000 1.0 5 (Some 12) None 0)]"
proof -
  let ?X = "timeout_tester example_env example_globals example_client example_kwargs example_start"
  let ?b = "Usage 50000000 3.5 4 (Some 12) None 0"
  let ?s1 = "Usage 200000000 40 9 (Some 30) None 2"
  let ?s2 = "Usage 48000000 1.0 5 (Some 12) None 0"
  have fresh: "events example_start = []"
    by (simp add: example_start_def)
  have run: "?X = (fst ?X, fst (snd ?X), snd (snd ?X))"
    by simp
  have ev: "events (snd (snd ?X)) = [Children_listed, Snapshot_taken ?b, Call_issued ''slow_tool'',
      Cancel_requested, Aclose_called ''1'', Snapshot_taken ?s1, Snapshot_taken ?s2]"
    by code_simp
  have ev1: "events (snd (snd ?X)) = [Children_listed, Snapshot_taken ?b] @ Call_issued ''slow_tool''
      # [Cancel_requested, Aclose_called ''1'', Snapshot_taken ?s1, Snapshot_taken ?s2]"
    and ev2: "events (snd (snd ?X)) = [Children_listed, Snapshot_taken ?b, Call_issued ''slow_tool'',
      Cancel_requested] @ Aclose_called ''1'' # [Snapshot_taken ?s1, Snapshot_taken ?s2]"
    using ev by simp_all
  note ord = timeout_tester_order [OF run fresh]
  from ord ev1 have a: "\<exists>b. Snapshot_taken b \<in> set [Children_listed, Snapshot_taken ?b]"
    by blast
  from ord ev2 have b: "Cancel_requested \<in> set [Children_listed, Snapshot_taken ?b,
      Call_issued ''slow_tool'', Cancel_requested]
    \<and> Cancel_requested \<notin> set [Snapshot_taken ?s1, Snapshot_taken ?s2]"
    by blast
  from fresh ev1 a ev2 b show ?thesis
    by (intro conjI) (erule conjunct1 conjunct2 | assumption)+
qed

subsection \<open>C10: a grace period that is not positive\<close>

text \<open>
  Claim C10. When \<open>timeout_tester\<close> is called with a grace period of zero or less, a run
  that starts with an empty log takes at most one snapshot, the baseline; and when it returns
  a result, that result has status \<open>suspect_leak\<close> and \<open>final = None\<close>, with the baseline
  as the only snapshot that was taken.
\<close>

theorem timeout_tester_nonpositive_grace:
  assumes run: "timeout_tester env g c kw w = (res, c', w')"
    and fresh: "events w = []"
    and grace: "kw_grace kw = Some gr" "gr \<le> 0"
  shows "length (snapshots_of (events w')) \<le> 1
    \<and> (\<forall>r. res = Inr r \<longrightarrow>
          status r = ''suspect_leak'' \<and> final r = None \<and> snapshots_of (events w') = [baseline r])"
  using run
proof (cases rule: timeout_tester_cases)
  case (drained r' b t sid proc w6)
  have "now w6 + gr \<le> now w6"
    using grace(2) by simp
  from drain_expired [OF this, of env proc b None] drained(8) grace(1)
  have "r' = \<lparr>status = ''suspect_leak'', baseline = b, final = None\<rparr>"
    and "w' = snd (monotonic w6)"
    by simp_all
  moreover have "events (snd (monotonic w6)) = events w6"
    by (simp add: monotonic_def)
  ultimately show ?thesis
    using drained(2,6) fresh by simp
qed (simp_all add: fresh)

theorem timeout_tester_nonpositive_grace_witness:
  "events example_start = []
   \<and> kw_grace \<lparr>kw_grace = Some (- 1), kw_server_id = None\<rparr> = Some (- 1) \<and> (- 1 :: real) \<le> 0
   \<and> fst (timeout_tester example_env example_globals example_client
          \<lparr>kw_grace = Some (- 1), kw_server_id = None\<rparr> example_start)
       = Inr \<lparr>status = ''suspect_leak'', baseline = Usage 50000000 3.5 4 (Some 12) None 0, final = None\<rparr>
   \<and> snapshots_of (events (snd (snd (timeout_tester example_env example_globals example_client
          \<lparr>kw_grace = Some (- 1), kw_server_id = None\<rparr> example_start))))
       = [Usage 50000000 3.5 4 (Some 12) None 0]"
proof -
  let ?kw = "\<lparr>kw_grace = Some (- 1), kw_server_id = None\<rparr>"
  let ?X = "timeout_tester example_env example_globals example_client ?kw example_start"
  let ?b = "Usage 50000000 3.5 4 (Some 12) None 0"
  let ?r = "\<lparr>status = ''suspect_leak'', baseline = ?b, final = None\<rparr>"
  have res: "fst ?X = Inr ?r"
    by code_simp
  have run: "?X = (fst ?X, fst (snd ?X), snd (snd ?X))"
    by simp
  have fresh: "events example_start = []"
    by (simp add: example_start_def)
  have g1: "kw_grace ?kw = Some (- 1)" and g2: "(- 1 :: real) \<le> 0"
    by simp_all
  from timeout_tester_nonpositive_grace [OF run fresh g1 g2] res
  have "snapshots_of (events (snd (snd ?X))) = [baseline ?r]"
    by blast
  then have "snapshots_of (events (snd (snd ?X))) = [?b]"
    by simp
  with fresh g1 g2 res show ?thesis
    by (intro conjI)
qed

end
